theory Spec2Isabelle
  imports Main "HOL-Library.Sublist"
begin

section \<open>Bulk loading of a CSV resource into an SQL table: odo/backends/sql_csv.py\<close>

text \<open>
  The module has one class, \<^verbatim>\<open>CopyFromCSV\<close>, one compiler per SQL dialect
  (\<^verbatim>\<open>compile_from_csv_sqlite\<close>, \<^verbatim>\<open>_mysql\<close>, \<^verbatim>\<open>_postgres\<close>, \<^verbatim>\<open>_redshift\<close>) and
  the function \<^verbatim>\<open>append_csv_to_sql_table\<close>. Python strings are modelled as byte strings
  (the module is written for Python 2: \<^verbatim>\<open>from __future__ import ...\<close>), exceptions as
  the left summand of a sum type, and everything the module calls but does not define
  (\<^verbatim>\<open>convert\<close>, \<^verbatim>\<open>infer_header\<close>, the dispatcher \<^verbatim>\<open>append\<close>, \<^verbatim>\<open>find_executable\<close>,
  \<^verbatim>\<open>subprocess.Popen\<close>, \<^verbatim>\<open>boto.Config\<close>, \<^verbatim>\<open>CopyCommand\<close>, the database engine) as a
  field of the record \<open>env\<close>, so that every theorem holds for every behaviour of these.
\<close>

subsection \<open>Python string operations used by the module\<close>

definition lower_char :: "char \<Rightarrow> char" where
  "lower_char c =
     (let n = (of_char c :: nat) in if 65 \<le> n \<and> n \<le> 90 then char_of (n + 32) else c)"

text \<open>\<^verbatim>\<open>str.lower()\<close> on a byte string: the letters A-Z only.\<close>

definition lower :: "string \<Rightarrow> string" where
  "lower s = map lower_char s"

text \<open>The whitespace of \<^verbatim>\<open>str.strip()\<close> and of the pattern \<^verbatim>\<open>\s\<close>: space, \t, \n, \v, \f, \r.\<close>

definition isspace :: "char \<Rightarrow> bool" where
  "isspace c = (c = CHR '' '' \<or> c = CHR 0x09 \<or> c = CHR 0x0A \<or> c = CHR 0x0B
                \<or> c = CHR 0x0C \<or> c = CHR 0x0D)"

definition lstrip :: "string \<Rightarrow> string" where
  "lstrip s = dropWhile isspace s"

definition rstrip :: "string \<Rightarrow> string" where
  "rstrip s = rev (dropWhile isspace (rev s))"

definition strip :: "string \<Rightarrow> string" where
  "strip s = rstrip (lstrip s)"

text \<open>The decimal digit of a number below ten, and the decimal digits of a number.\<close>

definition digit_char :: "nat \<Rightarrow> char" where
  "digit_char d = char_of (of_char (CHR ''0'') + d)"

fun digits :: "nat \<Rightarrow> string" where
  "digits n = (if 10 \<le> n then digits (n div 10) else []) @ [digit_char (n mod 10)]"

declare digits.simps [simp del]

text \<open>\<^verbatim>\<open>str(i)\<close> and \<^verbatim>\<open>'{}'.format(i)\<close> of an integer.\<close>

definition str_int :: "int \<Rightarrow> string" where
  "str_int i = (if i < 0 then CHR ''-'' # digits (nat (- i)) else digits (nat i))"

text \<open>\<^verbatim>\<open>str(b)\<close> of a boolean.\<close>

definition str_bool :: "bool \<Rightarrow> string" where
  "str_bool b = (if b then ''True'' else ''False'')"

definition upper_char :: "char \<Rightarrow> char" where
  "upper_char c =
     (let n = (of_char c :: nat) in if 97 \<le> n \<and> n \<le> 122 then char_of (n - 32) else c)"

definition upper :: "string \<Rightarrow> string" where
  "upper s = map upper_char s"

definition hex_digit :: "nat \<Rightarrow> char" where
  "hex_digit n = (if n < 10 then digit_char n else char_of (of_char (CHR ''a'') + (n - 10)))"

text \<open>
  \<^verbatim>\<open>repr(s)\<close> of a byte string: the quote is the apostrophe unless the string holds an
  apostrophe and no double quote; the quote and the backslash are escaped, \t, \n and \r
  are written so, and every other byte outside 0x20..0x7e as \xNN.
\<close>

definition repr_char :: "char \<Rightarrow> char \<Rightarrow> string" where
  "repr_char quote c =
     (let n = (of_char c :: nat) in
      if c = quote \<or> c = CHR 0x5C then [CHR 0x5C, c]
      else if c = CHR 0x09 then [CHR 0x5C, CHR ''t'']
      else if c = CHR 0x0A then [CHR 0x5C, CHR ''n'']
      else if c = CHR 0x0D then [CHR 0x5C, CHR ''r'']
      else if n < 32 \<or> 127 \<le> n
        then [CHR 0x5C, CHR ''x'', hex_digit (n div 16), hex_digit (n mod 16)]
      else [c])"

definition repr :: "string \<Rightarrow> string" where
  "repr s =
     (let quote = (if CHR 0x27 \<in> set s \<and> CHR 0x22 \<notin> set s then CHR 0x22 else CHR 0x27)
      in quote # concat (map (repr_char quote) s) @ [quote])"

text \<open>\<^verbatim>\<open>re.sub(r'\s+', ' ', s)\<close>: every maximal run of whitespace becomes one space.\<close>

function collapse_ws :: "string \<Rightarrow> string" where
  "collapse_ws [] = []"
| "collapse_ws (c # cs) =
     (if isspace c then CHR '' '' # collapse_ws (dropWhile isspace cs)
      else c # collapse_ws cs)"
  by pat_completeness auto
termination
  by (relation "measure length") (auto simp: less_Suc_eq_le length_dropWhile_le)

text \<open>
  \<^verbatim>\<open>re.sub(r'\s+(;)', r'\1', s)\<close>: a run of whitespace is deleted when a semicolon
  follows it (the greedy \<^verbatim>\<open>\s+\<close> can only match a whole tail of the run).
\<close>

function drop_ws_before_semicolon :: "string \<Rightarrow> string" where
  "drop_ws_before_semicolon [] = []"
| "drop_ws_before_semicolon (c # cs) =
     (if isspace c then
        (case dropWhile isspace cs of
           [] \<Rightarrow> c # takeWhile isspace cs
         | d # ds \<Rightarrow>
             if d = CHR '';'' then d # drop_ws_before_semicolon ds
             else c # takeWhile isspace cs @ d # drop_ws_before_semicolon ds)
      else c # drop_ws_before_semicolon cs)"
  by pat_completeness auto
termination
proof (relation "measure length")
  show "wf (measure length)" by simp
next
  fix c :: char and cs :: string and d ds
  assume "dropWhile isspace cs = d # ds"
  then have "length (d # ds) \<le> length cs"
    using length_dropWhile_le [of isspace cs] by simp
  then show "(ds, c # cs) \<in> measure length" by simp
next
  fix c :: char and cs :: string and d ds
  assume "dropWhile isspace cs = d # ds"
  then have "length (d # ds) \<le> length cs"
    using length_dropWhile_le [of isspace cs] by simp
  then show "(ds, c # cs) \<in> measure length" by simp
next
  fix c :: char and cs :: string
  show "(cs, c # cs) \<in> measure length" by simp
qed

subsection \<open>Data model\<close>

datatype error =
    TypeError
  | MDNotImplementedError
  | AssertionError
  | ValueError
  | UnboundLocalError
  | CompileError
  | ConversionError string
  | EngineError string

text \<open>
  The classes of a resource: \<^verbatim>\<open>CSV\<close>, \<^verbatim>\<open>S3(CSV)\<close>, \<^verbatim>\<open>SSH(CSV)\<close>, and \<^verbatim>\<open>Temp(T)\<close>, a
  subclass of \<^verbatim>\<open>T\<close>.
\<close>

datatype csv_type = CSV | S3_CSV | SSH_CSV

datatype csv_class = Plain csv_type | Temp csv_type

fun base_type :: "csv_class \<Rightarrow> csv_type" where
  "base_type (Plain t) = t"
| "base_type (Temp t) = t"

text \<open>
  Keyword arguments: one optional field per key the module reads or passes on
  (\<open>None\<close>: the key is absent). \<^verbatim>\<open>header\<close>, \<^verbatim>\<open>has_header\<close> and \<^verbatim>\<open>schema_name\<close>
  may be present with the value \<^verbatim>\<open>None\<close>.
\<close>

record kwargs =
  kw_delimiter :: "string option"
  kw_header :: "bool option option"
  kw_na_value :: "string option"
  kw_lineterminator :: "string option"
  kw_quotechar :: "string option"
  kw_escapechar :: "string option"
  kw_encoding :: "string option"
  kw_skiprows :: "int option"
  kw_has_header :: "bool option option"
  kw_local :: "string option"
  kw_compression :: "string option"
  kw_schema_name :: "string option option"

record resource =
  path :: string
  cls :: csv_class
  has_header :: "bool option"
  dialect :: kwargs

text \<open>\<^verbatim>\<open>isinstance(csv, S3(CSV))\<close>\<close>

definition isinstance_S3 :: "resource \<Rightarrow> bool" where
  "isinstance_S3 r = (base_type (cls r) = S3_CSV)"

text \<open>
  The engine a table is bound to: \<^verbatim>\<open>bind.dialect.name\<close>, \<^verbatim>\<open>bind.url.database\<close> and
  \<^verbatim>\<open>sa.inspect(bind).default_schema_name\<close>.
\<close>

record engine =
  dialect_name :: string
  database :: string
  default_schema_name :: "string option"

record table =
  name :: string
  schema :: "string option"
  bind :: engine
  columns :: "string list"

datatype selectable = Table table | NotATable

text \<open>
  An instance of \<^verbatim>\<open>CopyFromCSV\<close>. The options have the types of their defaults in the
  signature of \<^verbatim>\<open>__init__\<close>: strings, and an integer for \<^verbatim>\<open>skiprows\<close>. The last three
  fields are the attributes that \<^verbatim>\<open>__init__\<close> sets from the remaining keyword arguments
  and the compilers read with \<^verbatim>\<open>getattr\<close> (\<open>None\<close>: the attribute is missing, or is
  \<^verbatim>\<open>None\<close>).
\<close>

record copy_from_csv =
  element :: table
  csv :: resource
  delimiter :: string
  header :: bool
  na_value :: string
  lineterminator :: string
  quotechar :: string
  escapechar :: string
  encoding :: string
  skiprows :: int
  local :: "string option"
  compression :: "string option"
  schema_name :: "string option"

record redshift_options =
  opt_delimiter :: string
  opt_ignore_header :: int
  opt_empty_as_null :: bool
  opt_blanks_as_null :: bool
  opt_compression :: string

text \<open>The arguments of \<^verbatim>\<open>CopyCommand(...)\<close>.\<close>

record copy_command =
  cc_schema_name :: "string option"
  cc_table_name :: string
  cc_data_location :: string
  cc_access_key :: "string option"
  cc_secret_key :: "string option"
  cc_options :: redshift_options
  cc_format :: string

text \<open>What the module asks of the world outside it, in the order it asks.\<close>

datatype call =
    Convert csv_class resource kwargs
  | Append table resource kwargs
  | FindExecutable string
  | Popen "string list"
  | BotoConfig
  | Inspect
  | Begin
  | Execute string
  | Commit
  | Rollback
  | Reflect string "string option"

text \<open>
  The world: the rows of the target table that every client of the database sees, and
  the calls made so far.
\<close>

record world =
  committed :: "string list"
  calls :: "call list"

text \<open>
  The collaborators. \<open>convert\<close> is \<^verbatim>\<open>odo.convert\<close>; \<open>append_dispatch\<close> is the generic
  function \<^verbatim>\<open>append\<close> called on a relocated resource; \<open>popen\<close> gives, for an argument
  vector and the rows of the table, the rows the process leaves and what
  \<^verbatim>\<open>communicate()\<close> returns; \<open>run_sql\<close> gives, for a statement and the rows its
  transaction sees, the rows it writes inside the transaction and the error the engine
  reports, if any.
\<close>

record env =
  infer_header :: "resource \<Rightarrow> bool"
  convert :: "csv_class \<Rightarrow> resource \<Rightarrow> kwargs \<Rightarrow> error + resource"
  append_dispatch :: "table \<Rightarrow> resource \<Rightarrow> kwargs \<Rightarrow> world \<Rightarrow> (error + table) \<times> world"
  find_executable :: "string \<Rightarrow> string option"
  popen :: "string list \<Rightarrow> string list \<Rightarrow> string list \<times> string \<times> string option"
  boto_get :: "string \<Rightarrow> string \<Rightarrow> string option"
  copy_command_str :: "copy_command \<Rightarrow> string"
  run_sql :: "string \<Rightarrow> string list \<Rightarrow> string list \<times> error option"
  reflect_columns :: "engine \<Rightarrow> string \<Rightarrow> string option \<Rightarrow> string list"

subsection \<open>The class CopyFromCSV\<close>

text \<open>The value of a keyword argument, or the default of the signature.\<close>

definition arg :: "'a option \<Rightarrow> 'a \<Rightarrow> 'a" where
  "arg given dflt = (case given of None \<Rightarrow> dflt | Some v \<Rightarrow> v)"

text \<open>An argument that may be \<^verbatim>\<open>None\<close>, and whose default is \<^verbatim>\<open>None\<close>.\<close>

definition arg_or_None :: "'a option option \<Rightarrow> 'a option" where
  "arg_or_None given = (case given of None \<Rightarrow> None | Some v \<Rightarrow> v)"

text \<open>
  \<^verbatim>\<open>CopyFromCSV.__init__(self, element, csv, delimiter=',', header=None, na_value='',
  lineterminator=r'\n', quotechar='"', escapechar=r'\\', encoding='utf8', skiprows=0,
  **kwargs)\<close>, lines 22 to 41.
\<close>

definition CopyFromCSV :: "env \<Rightarrow> selectable \<Rightarrow> resource \<Rightarrow> kwargs \<Rightarrow> error + copy_from_csv" where
  "CopyFromCSV env el res kw =
     (case el of
        NotATable \<Rightarrow> Inl TypeError
      | Table t \<Rightarrow>
          Inr \<lparr> element = t,
                csv = res,
                delimiter = arg (kw_delimiter kw) '','',
                header =
                  (case arg_or_None (kw_header kw) of
                     Some h \<Rightarrow> h
                   | None \<Rightarrow>
                       (case has_header res of
                          Some h \<Rightarrow> h
                        | None \<Rightarrow> infer_header env res)),
                na_value = arg (kw_na_value kw) [],
                lineterminator = arg (kw_lineterminator kw) [CHR 0x5C, CHR ''n''],
                quotechar = arg (kw_quotechar kw) [CHR 0x22],
                escapechar = arg (kw_escapechar kw) [CHR 0x5C, CHR 0x5C],
                encoding = arg (kw_encoding kw) ''utf8'',
                skiprows = arg (kw_skiprows kw) 0,
                local = kw_local kw,
                compression = kw_compression kw,
                schema_name = arg_or_None (kw_schema_name kw) \<rparr>)"

subsection \<open>The dialect compilers\<close>

text \<open>A field between apostrophes, as the templates write \<^verbatim>\<open>'{0.delimiter}'\<close>.\<close>

definition quoted :: "string \<Rightarrow> string" where
  "quoted s = CHR 0x27 # s @ [CHR 0x27]"

text \<open>
  \<^verbatim>\<open>compile_from_csv_sqlite\<close>, lines 49 to 63: the compiler looks the \<^verbatim>\<open>sqlite3\<close>
  program up, runs the import as a sub-process and returns the empty statement.
  With \<^verbatim>\<open>stderr=subprocess.STDOUT\<close> the second component of \<^verbatim>\<open>communicate()\<close> is
  \<^verbatim>\<open>None\<close>; the model keeps the test the source makes.
\<close>

definition compile_from_csv_sqlite ::
  "env \<Rightarrow> copy_from_csv \<Rightarrow> world \<Rightarrow> (error + string) \<times> world" where
  "compile_from_csv_sqlite env el w =
     (let w1 = w\<lparr>calls := calls w @ [FindExecutable ''sqlite3'']\<rparr> in
      if (case find_executable env ''sqlite3'' of None \<Rightarrow> True | Some p \<Rightarrow> p = [])
      then (Inl MDNotImplementedError, w1)
      else
        (let cmd = [''sqlite3'',
                    ''-nullvalue'', repr (na_value el),
                    ''-'' @ (if \<not> header el then ''no'' else []) @ ''header'',
                    ''-separator'', delimiter el,
                    ''-cmd'', ''.import '' @ path (csv el) @ '' '' @ name (element el),
                    database (bind (element el))];
             out = popen env cmd (committed w1);
             w2 = w1\<lparr>committed := fst out, calls := calls w1 @ [Popen cmd]\<rparr>
         in if fst (snd out) = [] \<and> snd (snd out) = None then (Inr [], w2)
            else (Inl AssertionError, w2)))"

text \<open>
  Lines 70 and 71: \<^verbatim>\<open>{'utf-8': 'utf8'}.get(element.encoding.lower(), element.encoding or
  'utf8')\<close>.
\<close>

definition mysql_encoding :: "string \<Rightarrow> string" where
  "mysql_encoding e =
     (if lower e = ''utf-8'' then ''utf8'' else if e = [] then ''utf8'' else e)"

text \<open>
  Lines 90 and 91: \<^verbatim>\<open>{'utf8': 'utf-8'}.get(element.encoding.lower(), element.encoding or
  'utf8')\<close>.
\<close>

definition postgres_encoding :: "string \<Rightarrow> string" where
  "postgres_encoding e =
     (if lower e = ''utf8'' then ''utf-8'' else if e = [] then ''utf8'' else e)"

text \<open>\<^verbatim>\<open>compile_from_csv_mysql\<close>, lines 67 to 85.\<close>

definition compile_from_csv_mysql :: "copy_from_csv \<Rightarrow> error + string" where
  "compile_from_csv_mysql el =
     (if na_value el \<noteq> [] then Inl ValueError
      else
        (let encoding' = mysql_encoding (encoding el)
         in Inr (strip
              (''\<newline>        LOAD DATA '' @ arg (local el) [] @ '' INFILE '' @ quoted (path (csv el))
               @ ''\<newline>        INTO TABLE '' @ name (element el)
               @ ''\<newline>        CHARACTER SET '' @ encoding'
               @ ''\<newline>        FIELDS''
               @ ''\<newline>            TERMINATED BY '' @ quoted (delimiter el)
               @ ''\<newline>            ENCLOSED BY '' @ quoted (quotechar el)
               @ ''\<newline>            ESCAPED BY '' @ quoted (escapechar el)
               @ ''\<newline>        LINES TERMINATED BY '' @ quoted (lineterminator el)
               @ ''\<newline>        IGNORE '' @ str_int (skiprows el) @ '' LINES;''
               @ ''\<newline>    ''))))"

text \<open>\<^verbatim>\<open>compile_from_csv_postgres\<close>, lines 89 to 103.\<close>

definition compile_from_csv_postgres :: "copy_from_csv \<Rightarrow> string" where
  "compile_from_csv_postgres el =
     (let encoding' = postgres_encoding (encoding el)
      in strip
           (''\<newline>    COPY '' @ name (element el) @ '' FROM '' @ quoted (path (csv el))
            @ ''\<newline>        (FORMAT CSV,''
            @ ''\<newline>         DELIMITER E'' @ quoted (delimiter el) @ '',''
            @ ''\<newline>         NULL '' @ quoted (na_value el) @ '',''
            @ ''\<newline>         QUOTE '' @ quoted (quotechar el) @ '',''
            @ ''\<newline>         ESCAPE '' @ quoted (escapechar el) @ '',''
            @ ''\<newline>         HEADER '' @ upper (str_bool (header el)) @ '',''
            @ ''\<newline>         ENCODING '' @ quoted encoding' @ '');''))"

text \<open>\<^verbatim>\<open>x or y\<close> on optional strings: \<^verbatim>\<open>None\<close> and the empty string are false.\<close>

definition truthy :: "string option \<Rightarrow> bool" where
  "truthy x = (case x of None \<Rightarrow> False | Some s \<Rightarrow> s \<noteq> [])"

text \<open>
  \<^verbatim>\<open>compile_from_csv_redshift\<close>, lines 118 to 144. The local variable
  \<^verbatim>\<open>schema_name\<close> is assigned only inside the \<^verbatim>\<open>if\<close> of line 133; line 137 reads it.
\<close>

definition compile_from_csv_redshift ::
  "env \<Rightarrow> copy_from_csv \<Rightarrow> world \<Rightarrow> (error + string) \<times> world" where
  "compile_from_csv_redshift env el w =
     (if \<not> isinstance_S3 (csv el) then (Inl AssertionError, w)
      else if \<not> prefix ''s3://'' (path (csv el)) then (Inl AssertionError, w)
      else
        (let w1 = w\<lparr>calls := calls w @ [BotoConfig]\<rparr>;
             aws_access_key_id = boto_get env ''Credentials'' ''aws_access_key_id'';
             aws_secret_access_key = boto_get env ''Credentials'' ''aws_secret_access_key'';
             options = \<lparr> opt_delimiter = delimiter el,
                         opt_ignore_header = (if header el then 1 else 0),
                         opt_empty_as_null = True,
                         opt_blanks_as_null = False,
                         opt_compression = arg (compression el) [] \<rparr>
         in case schema_name el of
              Some override \<Rightarrow> (Inl UnboundLocalError, w1)
            | None \<Rightarrow>
                (let w2 = (if truthy (schema (element el)) then w1
                           else w1\<lparr>calls := calls w1 @ [Inspect]\<rparr>);
                     schema_name' =
                       (if truthy (schema (element el)) then schema (element el)
                        else default_schema_name (bind (element el)));
                     cmd = \<lparr> cc_schema_name = schema_name',
                             cc_table_name = name (element el),
                             cc_data_location = path (csv el),
                             cc_access_key = aws_access_key_id,
                             cc_secret_key = aws_secret_access_key,
                             cc_options = options,
                             cc_format = ''CSV'' \<rparr>
                 in (Inr (strip (drop_ws_before_semicolon
                                   (collapse_ws (copy_command_str env cmd)))), w2))))"

text \<open>
  The registry of \<^verbatim>\<open>@compiles(CopyFromCSV, dialect)\<close>: the compiler of the dialect of
  the statement's engine, and an error for a dialect with none.
\<close>

definition compile :: "env \<Rightarrow> copy_from_csv \<Rightarrow> world \<Rightarrow> (error + string) \<times> world" where
  "compile env el w =
     (let d = dialect_name (bind (element el)) in
      if d = ''sqlite'' then compile_from_csv_sqlite env el w
      else if d = ''mysql'' then (compile_from_csv_mysql el, w)
      else if d = ''postgresql'' then (Inr (compile_from_csv_postgres el), w)
      else if d = ''redshift'' then compile_from_csv_redshift env el w
      else (Inl CompileError, w))"

subsection \<open>Executing a statement in a transaction\<close>

text \<open>
  Modelled from the spec: the context manager of \<^verbatim>\<open>tbl.bind.begin()\<close> and the method
  \<^verbatim>\<open>conn.execute\<close> are SQLAlchemy's and not among the sources. Section 4.3 of the
  specification: the session commits on normal completion and rolls back on any failure
  raised during execution. So \<^verbatim>\<open>with tbl.bind.begin() as conn:\<close> opens a transaction;
  what the statements of the block write stays in the connection (a list of rows, new
  for each transaction) until the block is left: normally, and the rows are committed,
  or by an exception, and they are dropped.
\<close>

definition txn_begin :: "world \<Rightarrow> string list \<times> world" where
  "txn_begin w = ([], w\<lparr>calls := calls w @ [Begin]\<rparr>)"

definition txn_commit :: "string list \<Rightarrow> world \<Rightarrow> world" where
  "txn_commit conn w = w\<lparr>committed := committed w @ conn, calls := calls w @ [Commit]\<rparr>"

definition txn_rollback :: "string list \<Rightarrow> world \<Rightarrow> world" where
  "txn_rollback conn w = w\<lparr>calls := calls w @ [Rollback]\<rparr>"

text \<open>
  \<^verbatim>\<open>conn.execute(stmt)\<close>: the statement is compiled for the dialect of the engine, an
  exception of the compiler leaves the call, and the text is run by the engine inside
  the transaction. The engine may write rows before it reports an error.
\<close>

definition execute ::
  "env \<Rightarrow> copy_from_csv \<Rightarrow> string list \<Rightarrow> world \<Rightarrow> (error + unit) \<times> string list \<times> world" where
  "execute env stmt conn w =
     (case compile env stmt w of
        (Inl e, w1) \<Rightarrow> (Inl e, conn, w1)
      | (Inr sql, w1) \<Rightarrow>
          (let r = run_sql env sql (committed w1 @ conn);
               w2 = w1\<lparr>calls := calls w1 @ [Execute sql]\<rparr>
           in case snd r of
                Some e \<Rightarrow> (Inl e, conn @ fst r, w2)
              | None \<Rightarrow> (Inr (), conn @ fst r, w2)))"

subsection \<open>append_csv_to_sql_table\<close>

text \<open>\<^verbatim>\<open>toolz.merge(a, b)\<close>: the keys of both, the value of \<open>b\<close> where both have one.\<close>

definition override :: "'a option \<Rightarrow> 'a option \<Rightarrow> 'a option" where
  "override a b = (case b of None \<Rightarrow> a | Some v \<Rightarrow> Some v)"

definition merge :: "kwargs \<Rightarrow> kwargs \<Rightarrow> kwargs" where
  "merge a b =
     \<lparr> kw_delimiter = override (kw_delimiter a) (kw_delimiter b),
       kw_header = override (kw_header a) (kw_header b),
       kw_na_value = override (kw_na_value a) (kw_na_value b),
       kw_lineterminator = override (kw_lineterminator a) (kw_lineterminator b),
       kw_quotechar = override (kw_quotechar a) (kw_quotechar b),
       kw_escapechar = override (kw_escapechar a) (kw_escapechar b),
       kw_encoding = override (kw_encoding a) (kw_encoding b),
       kw_skiprows = override (kw_skiprows a) (kw_skiprows b),
       kw_has_header = override (kw_has_header a) (kw_has_header b),
       kw_local = override (kw_local a) (kw_local b),
       kw_compression = override (kw_compression a) (kw_compression b),
       kw_schema_name = override (kw_schema_name a) (kw_schema_name b) \<rparr>"

text \<open>
  How the relocation of lines 153 to 159 ends: the function goes on with a resource, or
  returns what \<^verbatim>\<open>append\<close> returns for the relocated one.
\<close>

datatype plan = Proceed resource | Recurse resource

text \<open>
  Lines 149 to 159. In the second branch \<^verbatim>\<open>has_header\<close> is passed by name next to
  \<^verbatim>\<open>**kwargs\<close>, which Python refuses when \<^verbatim>\<open>kwargs\<close> holds that key too.
\<close>

definition relocate ::
  "env \<Rightarrow> table \<Rightarrow> resource \<Rightarrow> kwargs \<Rightarrow> world \<Rightarrow> (error + plan) \<times> world" where
  "relocate env tbl res kw w =
     (let d = dialect_name (bind tbl) in
      if d = ''redshift'' \<and> \<not> isinstance_S3 res then
        (let w1 = w\<lparr>calls := calls w @ [Convert (Temp S3_CSV) res kw]\<rparr> in
         case convert env (Temp S3_CSV) res kw of
           Inl e \<Rightarrow> (Inl e, w1)
         | Inr res' \<Rightarrow> (Inr (Proceed res'), w1))
      else if d \<noteq> ''redshift'' \<and> isinstance_S3 res then
        (case kw_has_header kw of
           Some dup \<Rightarrow> (Inl TypeError, w)
         | None \<Rightarrow>
             (let kw' = kw\<lparr>kw_has_header := Some (has_header res)\<rparr>;
                  w1 = w\<lparr>calls := calls w @ [Convert (Temp CSV) res kw']\<rparr>
              in case convert env (Temp CSV) res kw' of
                   Inl e \<Rightarrow> (Inl e, w1)
                 | Inr res' \<Rightarrow> (Inr (Proceed res'), w1)))
      else if d = ''hive'' then
        (let w1 = w\<lparr>calls := calls w @ [Convert (Temp SSH_CSV) res kw]\<rparr> in
         case convert env (Temp SSH_CSV) res kw of
           Inl e \<Rightarrow> (Inl e, w1)
         | Inr res' \<Rightarrow> (Inr (Recurse res'), w1))
      else (Inr (Proceed res), w))"

text \<open>Lines 161 and 162: the statement built for the resource the relocation left.\<close>

definition build_stmt :: "env \<Rightarrow> table \<Rightarrow> resource \<Rightarrow> kwargs \<Rightarrow> error + copy_from_csv" where
  "build_stmt env tbl res kw = CopyFromCSV env (Table tbl) res (merge (dialect res) kw)"

text \<open>
  Lines 163 to 169: the statement is executed once inside the \<^verbatim>\<open>with\<close> block; the
  function returns a table of the same name, schema and engine whose columns are read
  from the engine again.
\<close>

definition run_stmt :: "env \<Rightarrow> table \<Rightarrow> copy_from_csv \<Rightarrow> world \<Rightarrow> (error + table) \<times> world" where
  "run_stmt env tbl stmt w =
     (case txn_begin w of
        (conn, w1) \<Rightarrow>
          (case execute env stmt conn w1 of
             (Inl e, conn', w2) \<Rightarrow> (Inl e, txn_rollback conn' w2)
           | (Inr u, conn', w2) \<Rightarrow>
               (let w3 = txn_commit conn' w2 in
                (Inr \<lparr> name = name tbl,
                        schema = schema tbl,
                        bind = bind tbl,
                        columns = reflect_columns env (bind tbl) (name tbl) (schema tbl) \<rparr>,
                 w3\<lparr>calls := calls w3 @ [Reflect (name tbl) (schema tbl)]\<rparr>))))"

text \<open>\<^verbatim>\<open>append_csv_to_sql_table(tbl, csv, **kwargs)\<close>, lines 148 to 169.\<close>

definition append_csv_to_sql_table ::
  "env \<Rightarrow> table \<Rightarrow> resource \<Rightarrow> kwargs \<Rightarrow> world \<Rightarrow> (error + table) \<times> world" where
  "append_csv_to_sql_table env tbl res kw w =
     (case relocate env tbl res kw w of
        (Inl e, w1) \<Rightarrow> (Inl e, w1)
      | (Inr (Recurse res'), w1) \<Rightarrow>
          append_dispatch env tbl res' kw (w1\<lparr>calls := calls w1 @ [Append tbl res' kw]\<rparr>)
      | (Inr (Proceed res'), w1) \<Rightarrow>
          (case build_stmt env tbl res' kw of
             Inl e \<Rightarrow> (Inl e, w1)
           | Inr stmt \<Rightarrow> run_stmt env tbl stmt w1))"

subsection \<open>Example inputs\<close>

definition no_kwargs :: kwargs where
  "no_kwargs =
     \<lparr> kw_delimiter = None, kw_header = None, kw_na_value = None, kw_lineterminator = None,
       kw_quotechar = None, kw_escapechar = None, kw_encoding = None, kw_skiprows = None,
       kw_has_header = None, kw_local = None, kw_compression = None, kw_schema_name = None \<rparr>"

definition local_csv :: resource where
  "local_csv =
     \<lparr> path = ''/data/in.csv'', cls = Plain CSV, has_header = Some True, dialect = no_kwargs \<rparr>"

definition s3_csv :: resource where
  "s3_csv =
     \<lparr> path = ''s3://bucket/in.csv'', cls = Plain S3_CSV, has_header = None,
       dialect = no_kwargs \<rparr>"

definition ssh_csv :: resource where
  "ssh_csv =
     \<lparr> path = ''/remote/in.csv'', cls = Plain SSH_CSV, has_header = Some False,
       dialect = no_kwargs \<rparr>"

definition table_on :: "string \<Rightarrow> table" where
  "table_on d =
     \<lparr> name = ''accounts'', schema = None,
       bind = \<lparr> dialect_name = d, database = ''/data/db.sqlite'',
                default_schema_name = Some ''public'' \<rparr>,
       columns = [''id'', ''amount''] \<rparr>"

text \<open>The statement that \<^verbatim>\<open>CopyFromCSV(tbl, csv)\<close> builds with the defaults and a header.\<close>

definition stmt_on :: "string \<Rightarrow> resource \<Rightarrow> copy_from_csv" where
  "stmt_on d res =
     \<lparr> element = table_on d, csv = res, delimiter = '','', header = True, na_value = [],
       lineterminator = [CHR 0x5C, CHR ''n''], quotechar = [CHR 0x22],
       escapechar = [CHR 0x5C, CHR 0x5C], encoding = ''utf8'', skiprows = 0,
       local = None, compression = None, schema_name = None \<rparr>"

definition w0 :: world where
  "w0 = \<lparr> committed = [], calls = [] \<rparr>"

text \<open>
  An environment in which every collaborator succeeds: \<^verbatim>\<open>convert\<close> returns a copy of
  the class asked for, \<^verbatim>\<open>sqlite3\<close> imports one row and prints nothing, the engine
  writes one row.
\<close>

definition env_quiet :: env where
  "env_quiet =
     \<lparr> infer_header = (\<lambda>r. False),
       convert = (\<lambda>T r kw. Inr (r\<lparr>path := (if base_type T = S3_CSV then ''s3://tmp/copy.csv''
                                               else ''/tmp/copy.csv''),
                                      cls := T\<rparr>)),
       append_dispatch = (\<lambda>t r kw w. (Inr t, w)),
       find_executable = (\<lambda>n. Some (''/usr/bin/'' @ n)),
       popen = (\<lambda>cmd rows. (rows @ [''1,10''], [], None)),
       boto_get = (\<lambda>s k. Some ''KEY''),
       copy_command_str = (\<lambda>c. ''COPY accounts FROM  's3://bucket/in.csv'  CSV ;''),
       run_sql = (\<lambda>sql rows. ([''1,10''], None)),
       reflect_columns = (\<lambda>e n s. [''id'', ''amount'']) \<rparr>"

text \<open>The same, but \<^verbatim>\<open>sqlite3\<close> imports the row and prints a warning.\<close>

definition env_noisy :: env where
  "env_noisy =
     env_quiet\<lparr>popen := (\<lambda>cmd rows. (rows @ [''1,10''], ''in.csv:2: extras ignored'', None))\<rparr>"

text \<open>The same, but the engine writes a row and then reports an error.\<close>

definition env_failing :: env where
  "env_failing =
     env_quiet\<lparr>run_sql := (\<lambda>sql rows. ([''1,10''], Some (EngineError ''invalid input'')))\<rparr>"

text \<open>What \<^verbatim>\<open>convert\<close> of \<open>env_quiet\<close> returns for the three relocations.\<close>

definition staged_csv :: resource where
  "staged_csv = local_csv\<lparr>path := ''s3://tmp/copy.csv'', cls := Temp S3_CSV\<rparr>"


definition ssh_tmp_csv :: resource where
  "ssh_tmp_csv = ssh_csv\<lparr>path := ''/tmp/copy.csv'', cls := Temp SSH_CSV\<rparr>"

text \<open>The statement the MySQL compiler returns for \<open>stmt_on ''mysql'' local_csv\<close>.\<close>

definition accounts_load_sql :: string where
  "accounts_load_sql =
     ''LOAD DATA  INFILE '/data/in.csv'\<newline>        INTO TABLE accounts\<newline>        CHARACTER SET utf8\<newline>        FIELDS\<newline>            TERMINATED BY ','\<newline>            ENCLOSED BY ''
     @ quoted [CHR 0x22]
     @ ''\<newline>            ESCAPED BY '' @ quoted [CHR 0x5C, CHR 0x5C]
     @ ''\<newline>        LINES TERMINATED BY '' @ quoted [CHR 0x5C, CHR ''n'']
     @ ''\<newline>        IGNORE 0 LINES;''"

section \<open>Properties\<close>

subsection \<open>Auxiliary facts\<close>

lemma isspace_simps [simp]:
  "isspace (CHR '' '')" "isspace (CHR 0x0A)"
  "\<not> isspace (CHR ''L'')" "\<not> isspace (CHR '';'')" "\<not> isspace (CHR ''C'')"
  by (simp_all add: isspace_def)

text \<open>
  The text of the MySQL statement: \<^verbatim>\<open>strip()\<close> removes the first line break with its
  indentation and the last one.
\<close>

lemma mysql_text:
  "na_value el = [] \<Longrightarrow>
   compile_from_csv_mysql el =
     Inr (''LOAD DATA '' @ arg (local el) [] @ '' INFILE '' @ quoted (path (csv el))
          @ ''\<newline>        INTO TABLE '' @ name (element el)
          @ ''\<newline>        CHARACTER SET '' @ mysql_encoding (encoding el)
          @ ''\<newline>        FIELDS''
          @ ''\<newline>            TERMINATED BY '' @ quoted (delimiter el)
          @ ''\<newline>            ENCLOSED BY '' @ quoted (quotechar el)
          @ ''\<newline>            ESCAPED BY '' @ quoted (escapechar el)
          @ ''\<newline>        LINES TERMINATED BY '' @ quoted (lineterminator el)
          @ ''\<newline>        IGNORE '' @ str_int (skiprows el) @ '' LINES;'')"
  by (simp add: compile_from_csv_mysql_def strip_def lstrip_def rstrip_def Let_def)

lemma postgres_text:
  "compile_from_csv_postgres el =
     ''COPY '' @ name (element el) @ '' FROM '' @ quoted (path (csv el))
      @ ''\<newline>        (FORMAT CSV,''
      @ ''\<newline>         DELIMITER E'' @ quoted (delimiter el) @ '',''
      @ ''\<newline>         NULL '' @ quoted (na_value el) @ '',''
      @ ''\<newline>         QUOTE '' @ quoted (quotechar el) @ '',''
      @ ''\<newline>         ESCAPE '' @ quoted (escapechar el) @ '',''
      @ ''\<newline>         HEADER '' @ upper (str_bool (header el)) @ '',''
      @ ''\<newline>         ENCODING '' @ quoted (postgres_encoding (encoding el)) @ '');''"
  by (simp add: compile_from_csv_postgres_def strip_def lstrip_def rstrip_def Let_def)

lemma str_int_0: "str_int 0 = ''0''"
  by code_simp

lemma upper_true: "upper ''True'' = ''TRUE''"
  by code_simp

lemma lower_examples:
  "lower ''utf8'' = ''utf8''" "lower ''UTF8'' = ''utf8''" "lower ''Utf-8'' = ''utf-8''"
  "lower ''latin1'' = ''latin1''"
  by code_simp+

subsection \<open>The header flag\<close>

text \<open>
  Claim C2. Whenever \<^verbatim>\<open>CopyFromCSV\<close> is constructed, its header flag is the caller's
  \<^verbatim>\<open>header\<close> keyword if that is given and not \<^verbatim>\<open>None\<close>; else (the keyword is absent,
  or is \<^verbatim>\<open>None\<close>) the resource's \<^verbatim>\<open>has_header\<close> if that is not \<^verbatim>\<open>None\<close>; else what
  \<^verbatim>\<open>infer_header\<close> returns for the resource. The flag of a constructed statement is a
  boolean in each of the three cases, so no compiler reads an unknown one.
\<close>

theorem header_resolved_by_priority:
  assumes "CopyFromCSV env el res kw = Inr stmt"
  shows "(\<forall>h. kw_header kw = Some (Some h) \<longrightarrow> header stmt = h)
       \<and> (\<forall>h. (kw_header kw = None \<or> kw_header kw = Some None) \<and> has_header res = Some h
              \<longrightarrow> header stmt = h)
       \<and> ((kw_header kw = None \<or> kw_header kw = Some None) \<and> has_header res = None
            \<longrightarrow> header stmt = infer_header env res)"
proof (cases el)
  case (Table t)
  with assms have "header stmt =
      (case kw_header kw of
         Some (Some h) \<Rightarrow> h
       | _ \<Rightarrow> (case has_header res of Some h \<Rightarrow> h | None \<Rightarrow> infer_header env res))"
    by (auto simp: CopyFromCSV_def arg_or_None_def split: option.splits)
  then show ?thesis by auto
next
  case NotATable
  with assms show ?thesis by (simp add: CopyFromCSV_def)
qed

theorem header_resolved_by_priority_witness:
  "kw_header (no_kwargs\<lparr>kw_header := Some (Some True)\<rparr>) = Some (Some True)
   \<and> has_header ssh_csv = Some False \<and> infer_header env_quiet ssh_csv = False
   \<and> CopyFromCSV env_quiet (Table (table_on ''postgresql'')) ssh_csv
         (no_kwargs\<lparr>kw_header := Some (Some True)\<rparr>)
       = Inr (stmt_on ''postgresql'' ssh_csv)
   \<and> header (stmt_on ''postgresql'' ssh_csv) = True
   \<and> kw_header (no_kwargs\<lparr>kw_header := Some (Some False)\<rparr>) = Some (Some False)
   \<and> has_header local_csv = Some True
   \<and> CopyFromCSV env_quiet (Table (table_on ''postgresql'')) local_csv
         (no_kwargs\<lparr>kw_header := Some (Some False)\<rparr>)
       = Inr ((stmt_on ''postgresql'' local_csv)\<lparr>header := False\<rparr>)
   \<and> header ((stmt_on ''postgresql'' local_csv)\<lparr>header := False\<rparr>) = False
   \<and> kw_header (no_kwargs\<lparr>kw_header := Some None\<rparr>) = Some None
   \<and> infer_header env_quiet local_csv = False
   \<and> CopyFromCSV env_quiet (Table (table_on ''postgresql'')) local_csv
         (no_kwargs\<lparr>kw_header := Some None\<rparr>)
       = Inr (stmt_on ''postgresql'' local_csv)
   \<and> header (stmt_on ''postgresql'' local_csv) = True
   \<and> kw_header no_kwargs = None \<and> has_header s3_csv = None
   \<and> CopyFromCSV env_quiet (Table (table_on ''postgresql'')) s3_csv no_kwargs
       = Inr ((stmt_on ''postgresql'' s3_csv)\<lparr>header := False\<rparr>)
   \<and> header ((stmt_on ''postgresql'' s3_csv)\<lparr>header := False\<rparr>)
       = infer_header env_quiet s3_csv"
proof -
  have override_true:
    "CopyFromCSV env_quiet (Table (table_on ''postgresql'')) ssh_csv
         (no_kwargs\<lparr>kw_header := Some (Some True)\<rparr>)
       = Inr (stmt_on ''postgresql'' ssh_csv)"
    by (simp add: CopyFromCSV_def stmt_on_def ssh_csv_def no_kwargs_def arg_def arg_or_None_def)
  have override_false:
    "CopyFromCSV env_quiet (Table (table_on ''postgresql'')) local_csv
         (no_kwargs\<lparr>kw_header := Some (Some False)\<rparr>)
       = Inr ((stmt_on ''postgresql'' local_csv)\<lparr>header := False\<rparr>)"
    by (simp add: CopyFromCSV_def stmt_on_def local_csv_def no_kwargs_def arg_def arg_or_None_def)
  have known:
    "CopyFromCSV env_quiet (Table (table_on ''postgresql'')) local_csv
         (no_kwargs\<lparr>kw_header := Some None\<rparr>)
       = Inr (stmt_on ''postgresql'' local_csv)"
    by (simp add: CopyFromCSV_def stmt_on_def local_csv_def no_kwargs_def arg_def arg_or_None_def)
  have inferred:
    "CopyFromCSV env_quiet (Table (table_on ''postgresql'')) s3_csv no_kwargs
       = Inr ((stmt_on ''postgresql'' s3_csv)\<lparr>header := False\<rparr>)"
    by (simp add: CopyFromCSV_def stmt_on_def s3_csv_def no_kwargs_def arg_def arg_or_None_def
        env_quiet_def)
  have h1: "header (stmt_on ''postgresql'' ssh_csv) = True"
    using header_resolved_by_priority [OF override_true] by auto
  have h2: "header ((stmt_on ''postgresql'' local_csv)\<lparr>header := False\<rparr>) = False"
    using header_resolved_by_priority [OF override_false] by auto
  have known_header: "has_header local_csv = Some True"
    by (simp add: local_csv_def)
  have h3: "header (stmt_on ''postgresql'' local_csv) = True"
    using header_resolved_by_priority [OF known] known_header by auto
  have unknown_header: "has_header s3_csv = None"
    by (simp add: s3_csv_def)
  have absent: "kw_header no_kwargs = None"
    by (simp add: no_kwargs_def)
  have h4: "header ((stmt_on ''postgresql'' s3_csv)\<lparr>header := False\<rparr>)
              = infer_header env_quiet s3_csv"
    using header_resolved_by_priority [OF inferred] unknown_header absent by auto
  have other: "has_header ssh_csv = Some False" "infer_header env_quiet ssh_csv = False"
    "infer_header env_quiet local_csv = False"
    by (simp_all add: ssh_csv_def env_quiet_def)
  show ?thesis
    using h1 h2 h3 h4 known_header unknown_header absent other
      override_true override_false known inferred
    by simp
qed

subsection \<open>The Redshift compiler and its precondition\<close>

text \<open>
  Claim C3. The Redshift compiler raises \<^verbatim>\<open>AssertionError\<close> (the specification's
  PreconditionViolation; the two \<^verbatim>\<open>assert\<close> statements of lines 119 and 120, which the
  interpreter checks unless it is asked to optimise), returns no command and calls
  nothing, for every resource that is not an instance of \<^verbatim>\<open>S3(CSV)\<close> or whose path
  does not start with \<^verbatim>\<open>s3://\<close>; for a resource that is both, it never raises that
  error.
\<close>

theorem redshift_requires_s3:
  "(\<not> isinstance_S3 (csv el) \<or> \<not> prefix ''s3://'' (path (csv el))
      \<longrightarrow> compile_from_csv_redshift env el w = (Inl AssertionError, w))
   \<and> (isinstance_S3 (csv el) \<and> prefix ''s3://'' (path (csv el))
      \<longrightarrow> fst (compile_from_csv_redshift env el w) \<noteq> Inl AssertionError)"
  by (auto simp: compile_from_csv_redshift_def Let_def split: option.splits)

theorem redshift_requires_s3_witness:
  "\<not> isinstance_S3 (csv (stmt_on ''redshift'' local_csv))
   \<and> compile_from_csv_redshift env_quiet (stmt_on ''redshift'' local_csv) w0
       = (Inl AssertionError, w0)
   \<and> isinstance_S3 (csv (stmt_on ''redshift'' s3_csv))
   \<and> prefix ''s3://'' (path (csv (stmt_on ''redshift'' s3_csv)))
   \<and> fst (compile_from_csv_redshift env_quiet (stmt_on ''redshift'' s3_csv) w0)
       \<noteq> Inl AssertionError"
  using redshift_requires_s3 [of "stmt_on ''redshift'' local_csv" env_quiet w0]
    redshift_requires_s3 [of "stmt_on ''redshift'' s3_csv" env_quiet w0]
  by (simp add: stmt_on_def local_csv_def s3_csv_def isinstance_S3_def)

subsection \<open>The MySQL compiler and the null value\<close>

text \<open>
  Claim C4. For the MySQL dialect a non-empty \<^verbatim>\<open>na_value\<close> always raises
  \<^verbatim>\<open>ValueError\<close> (the specification's ConfigurationError) and yields no command; with
  the empty \<^verbatim>\<open>na_value\<close> the compiler succeeds and returns one \<^verbatim>\<open>LOAD DATA\<close> statement,
  ended by its semicolon.
\<close>

theorem mysql_rejects_null_value:
  "(na_value el \<noteq> [] \<longrightarrow> compile_from_csv_mysql el = Inl ValueError)
   \<and> (na_value el = [] \<longrightarrow>
        compile_from_csv_mysql el =
          Inr (''LOAD DATA '' @ arg (local el) [] @ '' INFILE '' @ quoted (path (csv el))
               @ ''\<newline>        INTO TABLE '' @ name (element el)
               @ ''\<newline>        CHARACTER SET '' @ mysql_encoding (encoding el)
               @ ''\<newline>        FIELDS''
               @ ''\<newline>            TERMINATED BY '' @ quoted (delimiter el)
               @ ''\<newline>            ENCLOSED BY '' @ quoted (quotechar el)
               @ ''\<newline>            ESCAPED BY '' @ quoted (escapechar el)
               @ ''\<newline>        LINES TERMINATED BY '' @ quoted (lineterminator el)
               @ ''\<newline>        IGNORE '' @ str_int (skiprows el) @ '' LINES;''))"
proof (intro conjI impI)
  assume "na_value el \<noteq> []"
  then show "compile_from_csv_mysql el = Inl ValueError"
    by (simp add: compile_from_csv_mysql_def)
next
  assume "na_value el = []"
  then show "compile_from_csv_mysql el =
          Inr (''LOAD DATA '' @ arg (local el) [] @ '' INFILE '' @ quoted (path (csv el))
               @ ''\<newline>        INTO TABLE '' @ name (element el)
               @ ''\<newline>        CHARACTER SET '' @ mysql_encoding (encoding el)
               @ ''\<newline>        FIELDS''
               @ ''\<newline>            TERMINATED BY '' @ quoted (delimiter el)
               @ ''\<newline>            ENCLOSED BY '' @ quoted (quotechar el)
               @ ''\<newline>            ESCAPED BY '' @ quoted (escapechar el)
               @ ''\<newline>        LINES TERMINATED BY '' @ quoted (lineterminator el)
               @ ''\<newline>        IGNORE '' @ str_int (skiprows el) @ '' LINES;'')"
    by (rule mysql_text)
qed

theorem mysql_rejects_null_value_witness:
  "na_value ((stmt_on ''mysql'' local_csv)\<lparr>na_value := ''NA''\<rparr>) \<noteq> []
   \<and> compile_from_csv_mysql ((stmt_on ''mysql'' local_csv)\<lparr>na_value := ''NA''\<rparr>) = Inl ValueError
   \<and> na_value (stmt_on ''mysql'' local_csv) = []
   \<and> compile_from_csv_mysql (stmt_on ''mysql'' local_csv) =
       Inr (''LOAD DATA  INFILE '/data/in.csv'\<newline>        INTO TABLE accounts\<newline>        CHARACTER SET utf8\<newline>        FIELDS\<newline>            TERMINATED BY ','\<newline>            ENCLOSED BY ''
            @ quoted [CHR 0x22]
            @ ''\<newline>            ESCAPED BY '' @ quoted [CHR 0x5C, CHR 0x5C]
            @ ''\<newline>        LINES TERMINATED BY '' @ quoted [CHR 0x5C, CHR ''n'']
            @ ''\<newline>        IGNORE 0 LINES;'')"
  using mysql_rejects_null_value [of "(stmt_on ''mysql'' local_csv)\<lparr>na_value := ''NA''\<rparr>"]
    mysql_rejects_null_value [of "stmt_on ''mysql'' local_csv"]
  by (simp add: stmt_on_def local_csv_def table_on_def arg_def quoted_def mysql_encoding_def
      lower_examples str_int_0)

subsection \<open>The schema name of the Redshift command\<close>

text \<open>
  Without the attribute \<^verbatim>\<open>schema_name\<close> the command gets the schema of the table when
  that is set and not empty, and else the default schema of the engine.
\<close>

lemma redshift_schema_fallback:
  assumes "isinstance_S3 (csv el)" "prefix ''s3://'' (path (csv el))" "schema_name el = None"
  shows "\<exists>cmd w'. compile_from_csv_redshift env el w =
           (Inr (strip (drop_ws_before_semicolon (collapse_ws (copy_command_str env cmd)))), w')
         \<and> cc_schema_name cmd =
             (if truthy (schema (element el)) then schema (element el)
              else default_schema_name (bind (element el)))"
  using assms by (auto simp: compile_from_csv_redshift_def Let_def)

text \<open>
  Claim C5 says that an explicit \<^verbatim>\<open>schema_name\<close> is used when the caller gives one. The
  compiler tests for it (line 133) but assigns the local variable only in the branch
  without it, so with a schema name given the read of line 137 raises
  \<^verbatim>\<open>UnboundLocalError\<close>: here for a resource in S3, after the credentials were read.
\<close>

theorem redshift_schema_name_override_unbound:
  "compile_from_csv_redshift env_quiet
     ((stmt_on ''redshift'' s3_csv)\<lparr>schema_name := Some ''analytics''\<rparr>) w0
   = (Inl UnboundLocalError, w0\<lparr>calls := [BotoConfig]\<rparr>)"
  by (simp add: compile_from_csv_redshift_def stmt_on_def s3_csv_def isinstance_S3_def w0_def)

subsection \<open>Encoding names\<close>

text \<open>
  Claim C10. The PostgreSQL compiler writes \<^verbatim>\<open>utf8\<close>, in any letter case, as \<^verbatim>\<open>utf-8\<close>
  in the \<^verbatim>\<open>ENCODING\<close> clause and every other non-empty encoding as given; the MySQL
  compiler goes the other way and writes \<^verbatim>\<open>utf-8\<close>, in any letter case, as \<^verbatim>\<open>utf8\<close> in
  the \<^verbatim>\<open>CHARACTER SET\<close> clause. (\<open>lower e = ''utf8''\<close> says that \<open>e\<close> is \<^verbatim>\<open>utf8\<close> up to
  letter case.)
\<close>

theorem encoding_normalised_per_dialect:
  "(lower (encoding el) = ''utf8'' \<longrightarrow>
      compile_from_csv_postgres el =
        ''COPY '' @ name (element el) @ '' FROM '' @ quoted (path (csv el))
        @ ''\<newline>        (FORMAT CSV,''
        @ ''\<newline>         DELIMITER E'' @ quoted (delimiter el) @ '',''
        @ ''\<newline>         NULL '' @ quoted (na_value el) @ '',''
        @ ''\<newline>         QUOTE '' @ quoted (quotechar el) @ '',''
        @ ''\<newline>         ESCAPE '' @ quoted (escapechar el) @ '',''
        @ ''\<newline>         HEADER '' @ upper (str_bool (header el)) @ '',''
        @ ''\<newline>         ENCODING 'utf-8');'')
   \<and> (lower (encoding el) \<noteq> ''utf8'' \<and> encoding el \<noteq> [] \<longrightarrow>
      compile_from_csv_postgres el =
        ''COPY '' @ name (element el) @ '' FROM '' @ quoted (path (csv el))
        @ ''\<newline>        (FORMAT CSV,''
        @ ''\<newline>         DELIMITER E'' @ quoted (delimiter el) @ '',''
        @ ''\<newline>         NULL '' @ quoted (na_value el) @ '',''
        @ ''\<newline>         QUOTE '' @ quoted (quotechar el) @ '',''
        @ ''\<newline>         ESCAPE '' @ quoted (escapechar el) @ '',''
        @ ''\<newline>         HEADER '' @ upper (str_bool (header el)) @ '',''
        @ ''\<newline>         ENCODING '' @ quoted (encoding el) @ '');'')
   \<and> (lower (encoding el) = ''utf-8'' \<and> na_value el = [] \<longrightarrow>
      compile_from_csv_mysql el =
        Inr (''LOAD DATA '' @ arg (local el) [] @ '' INFILE '' @ quoted (path (csv el))
             @ ''\<newline>        INTO TABLE '' @ name (element el)
             @ ''\<newline>        CHARACTER SET utf8''
             @ ''\<newline>        FIELDS''
             @ ''\<newline>            TERMINATED BY '' @ quoted (delimiter el)
             @ ''\<newline>            ENCLOSED BY '' @ quoted (quotechar el)
             @ ''\<newline>            ESCAPED BY '' @ quoted (escapechar el)
             @ ''\<newline>        LINES TERMINATED BY '' @ quoted (lineterminator el)
             @ ''\<newline>        IGNORE '' @ str_int (skiprows el) @ '' LINES;''))"
proof (intro conjI impI)
  assume "lower (encoding el) = ''utf8''"
  then have "postgres_encoding (encoding el) = ''utf-8''"
    by (simp add: postgres_encoding_def)
  then show "compile_from_csv_postgres el =
        ''COPY '' @ name (element el) @ '' FROM '' @ quoted (path (csv el))
        @ ''\<newline>        (FORMAT CSV,''
        @ ''\<newline>         DELIMITER E'' @ quoted (delimiter el) @ '',''
        @ ''\<newline>         NULL '' @ quoted (na_value el) @ '',''
        @ ''\<newline>         QUOTE '' @ quoted (quotechar el) @ '',''
        @ ''\<newline>         ESCAPE '' @ quoted (escapechar el) @ '',''
        @ ''\<newline>         HEADER '' @ upper (str_bool (header el)) @ '',''
        @ ''\<newline>         ENCODING 'utf-8');''"
    by (simp add: postgres_text quoted_def)
next
  assume "lower (encoding el) \<noteq> ''utf8'' \<and> encoding el \<noteq> []"
  then have "postgres_encoding (encoding el) = encoding el"
    by (simp add: postgres_encoding_def)
  then show "compile_from_csv_postgres el =
        ''COPY '' @ name (element el) @ '' FROM '' @ quoted (path (csv el))
        @ ''\<newline>        (FORMAT CSV,''
        @ ''\<newline>         DELIMITER E'' @ quoted (delimiter el) @ '',''
        @ ''\<newline>         NULL '' @ quoted (na_value el) @ '',''
        @ ''\<newline>         QUOTE '' @ quoted (quotechar el) @ '',''
        @ ''\<newline>         ESCAPE '' @ quoted (escapechar el) @ '',''
        @ ''\<newline>         HEADER '' @ upper (str_bool (header el)) @ '',''
        @ ''\<newline>         ENCODING '' @ quoted (encoding el) @ '');''"
    by (simp add: postgres_text)
next
  assume a: "lower (encoding el) = ''utf-8'' \<and> na_value el = []"
  then have "mysql_encoding (encoding el) = ''utf8''"
    by (simp add: mysql_encoding_def)
  with a show "compile_from_csv_mysql el =
        Inr (''LOAD DATA '' @ arg (local el) [] @ '' INFILE '' @ quoted (path (csv el))
             @ ''\<newline>        INTO TABLE '' @ name (element el)
             @ ''\<newline>        CHARACTER SET utf8''
             @ ''\<newline>        FIELDS''
             @ ''\<newline>            TERMINATED BY '' @ quoted (delimiter el)
             @ ''\<newline>            ENCLOSED BY '' @ quoted (quotechar el)
             @ ''\<newline>            ESCAPED BY '' @ quoted (escapechar el)
             @ ''\<newline>        LINES TERMINATED BY '' @ quoted (lineterminator el)
             @ ''\<newline>        IGNORE '' @ str_int (skiprows el) @ '' LINES;'')"
    by (simp add: mysql_text)
qed

theorem encoding_normalised_per_dialect_witness:
  "lower ''UTF8'' = ''utf8''
   \<and> compile_from_csv_postgres ((stmt_on ''postgresql'' local_csv)\<lparr>encoding := ''UTF8''\<rparr>) =
       ''COPY accounts FROM '/data/in.csv'\<newline>        (FORMAT CSV,\<newline>         DELIMITER E',',\<newline>         NULL ''
       @ quoted [] @ '',\<newline>         QUOTE '' @ quoted [CHR 0x22]
       @ '',\<newline>         ESCAPE '' @ quoted [CHR 0x5C, CHR 0x5C]
       @ '',\<newline>         HEADER TRUE,\<newline>         ENCODING 'utf-8');''
   \<and> lower ''latin1'' \<noteq> ''utf8''
   \<and> compile_from_csv_postgres ((stmt_on ''postgresql'' local_csv)\<lparr>encoding := ''latin1''\<rparr>) =
       ''COPY accounts FROM '/data/in.csv'\<newline>        (FORMAT CSV,\<newline>         DELIMITER E',',\<newline>         NULL ''
       @ quoted [] @ '',\<newline>         QUOTE '' @ quoted [CHR 0x22]
       @ '',\<newline>         ESCAPE '' @ quoted [CHR 0x5C, CHR 0x5C]
       @ '',\<newline>         HEADER TRUE,\<newline>         ENCODING 'latin1');''
   \<and> lower ''Utf-8'' = ''utf-8''
   \<and> compile_from_csv_mysql ((stmt_on ''mysql'' local_csv)\<lparr>encoding := ''Utf-8''\<rparr>) =
       Inr (''LOAD DATA  INFILE '/data/in.csv'\<newline>        INTO TABLE accounts\<newline>        CHARACTER SET utf8\<newline>        FIELDS\<newline>            TERMINATED BY ','\<newline>            ENCLOSED BY ''
            @ quoted [CHR 0x22]
            @ ''\<newline>            ESCAPED BY '' @ quoted [CHR 0x5C, CHR 0x5C]
            @ ''\<newline>        LINES TERMINATED BY '' @ quoted [CHR 0x5C, CHR ''n'']
            @ ''\<newline>        IGNORE 0 LINES;'')"
  using encoding_normalised_per_dialect [of "(stmt_on ''postgresql'' local_csv)\<lparr>encoding := ''UTF8''\<rparr>"]
    encoding_normalised_per_dialect [of "(stmt_on ''postgresql'' local_csv)\<lparr>encoding := ''latin1''\<rparr>"]
    encoding_normalised_per_dialect [of "(stmt_on ''mysql'' local_csv)\<lparr>encoding := ''Utf-8''\<rparr>"]
  by (simp add: stmt_on_def local_csv_def table_on_def arg_def quoted_def lower_examples
      str_int_0 str_bool_def upper_true)

subsection \<open>Relocation of the resource\<close>

lemma build_stmt_fields:
  assumes "build_stmt env tbl res kw = Inr stmt"
  shows "csv stmt = res" and "element stmt = tbl"
  using assms by (auto simp: build_stmt_def CopyFromCSV_def)

lemma append_proceed:
  assumes "relocate env tbl res kw w = (Inr (Proceed res'), w')"
      and "build_stmt env tbl res' kw = Inr stmt"
  shows "append_csv_to_sql_table env tbl res kw w = run_stmt env tbl stmt w'"
  using assms by (simp add: append_csv_to_sql_table_def)

text \<open>
  Claim C1. The dialect compilers of the module read the resource of the statement that
  \<^verbatim>\<open>append_csv_to_sql_table\<close> builds and executes. Whenever the function gets that far,
  the resource of the statement is an instance of \<^verbatim>\<open>S3(CSV)\<close> exactly when the engine is
  Redshift: for Redshift and a resource outside S3 it is what
  \<^verbatim>\<open>convert(Temp(S3(CSV)), csv, **kwargs)\<close> returned, for another engine and a resource
  in S3 it is what \<^verbatim>\<open>convert(Temp(CSV), csv, has_header=csv.has_header, **kwargs)\<close>
  returned. The one assumption is the contract of \<^verbatim>\<open>convert\<close>: what it returns is an
  instance of the class it was asked for.
\<close>

theorem relocated_resource_fits_engine:
  assumes contract: "\<forall>T r k r'. convert env T r k = Inr r' \<longrightarrow> base_type (cls r') = base_type T"
      and reloc: "relocate env tbl res kw w = (Inr (Proceed res'), w')"
      and built: "build_stmt env tbl res' kw = Inr stmt"
  shows "append_csv_to_sql_table env tbl res kw w = run_stmt env tbl stmt w'
       \<and> element stmt = tbl
       \<and> isinstance_S3 (csv stmt) = (dialect_name (bind tbl) = ''redshift'')
       \<and> (dialect_name (bind tbl) = ''redshift'' \<and> \<not> isinstance_S3 res
            \<longrightarrow> convert env (Temp S3_CSV) res kw = Inr (csv stmt))
       \<and> (dialect_name (bind tbl) \<noteq> ''redshift'' \<and> isinstance_S3 res
            \<longrightarrow> convert env (Temp CSV) res (kw\<lparr>kw_has_header := Some (has_header res)\<rparr>)
                  = Inr (csv stmt))"
proof -
  have csv: "csv stmt = res'" and el: "element stmt = tbl"
    using build_stmt_fields [OF built] by simp_all
  have to_s3: "convert env (Temp S3_CSV) res kw = Inr res'"
    if "dialect_name (bind tbl) = ''redshift''" "\<not> isinstance_S3 res"
    using reloc that by (simp add: relocate_def Let_def split: sum.splits)
  have to_local: "convert env (Temp CSV) res (kw\<lparr>kw_has_header := Some (has_header res)\<rparr>) = Inr res'"
    if "dialect_name (bind tbl) \<noteq> ''redshift''" "isinstance_S3 res"
    using reloc that by (simp add: relocate_def Let_def split: sum.splits option.splits)
  have kept: "res' = res"
    if "\<not> (dialect_name (bind tbl) = ''redshift'' \<and> \<not> isinstance_S3 res)"
       "\<not> (dialect_name (bind tbl) \<noteq> ''redshift'' \<and> isinstance_S3 res)"
    using reloc that by (auto simp: relocate_def Let_def split: sum.splits if_splits)
  have fits: "isinstance_S3 res' = (dialect_name (bind tbl) = ''redshift'')"
  proof (cases "dialect_name (bind tbl) = ''redshift''")
    case True
    show ?thesis
    proof (cases "isinstance_S3 res")
      case True
      with kept \<open>dialect_name (bind tbl) = ''redshift''\<close> show ?thesis by simp
    next
      case False
      with to_s3 contract \<open>dialect_name (bind tbl) = ''redshift''\<close>
      have "base_type (cls res') = S3_CSV" by fastforce
      with \<open>dialect_name (bind tbl) = ''redshift''\<close> show ?thesis
        by (simp add: isinstance_S3_def)
    qed
  next
    case False
    show ?thesis
    proof (cases "isinstance_S3 res")
      case True
      with to_local contract False have "base_type (cls res') = CSV" by fastforce
      with False show ?thesis by (simp add: isinstance_S3_def)
    next
      case notS3: False
      with kept False show ?thesis by simp
    qed
  qed
  show ?thesis
    using append_proceed [OF reloc built] csv el fits to_s3 to_local by simp
qed

theorem relocated_resource_fits_engine_witness:
  "relocate env_quiet (table_on ''redshift'') local_csv no_kwargs w0
     = (Inr (Proceed staged_csv), w0\<lparr>calls := [Convert (Temp S3_CSV) local_csv no_kwargs]\<rparr>)
   \<and> build_stmt env_quiet (table_on ''redshift'') staged_csv no_kwargs
       = Inr (stmt_on ''redshift'' staged_csv)
   \<and> append_csv_to_sql_table env_quiet (table_on ''redshift'') local_csv no_kwargs w0
       = run_stmt env_quiet (table_on ''redshift'') (stmt_on ''redshift'' staged_csv)
           (w0\<lparr>calls := [Convert (Temp S3_CSV) local_csv no_kwargs]\<rparr>)
   \<and> isinstance_S3 (csv (stmt_on ''redshift'' staged_csv))
   \<and> convert env_quiet (Temp S3_CSV) local_csv no_kwargs
       = Inr (csv (stmt_on ''redshift'' staged_csv))"
proof -
  have contract: "\<forall>T r k r'. convert env_quiet T r k = Inr r' \<longrightarrow> base_type (cls r') = base_type T"
    by (auto simp: env_quiet_def)
  have reloc: "relocate env_quiet (table_on ''redshift'') local_csv no_kwargs w0
     = (Inr (Proceed staged_csv), w0\<lparr>calls := [Convert (Temp S3_CSV) local_csv no_kwargs]\<rparr>)"
    by (simp add: relocate_def table_on_def local_csv_def isinstance_S3_def env_quiet_def
        staged_csv_def w0_def)
  have built: "build_stmt env_quiet (table_on ''redshift'') staged_csv no_kwargs
       = Inr (stmt_on ''redshift'' staged_csv)"
    by (simp add: build_stmt_def CopyFromCSV_def stmt_on_def staged_csv_def local_csv_def
        no_kwargs_def merge_def override_def arg_def arg_or_None_def)
  show ?thesis
    using relocated_resource_fits_engine [OF contract reloc built] reloc built
    by (simp add: table_on_def staged_csv_def local_csv_def isinstance_S3_def stmt_on_def)
qed

text \<open>
  Claim C8, amended. A resource in S3 for Redshift, and a resource outside S3 for an
  engine that is neither Redshift nor Hive, is returned unchanged by the relocation step
  and no conversion is requested (the world, which records every request, is the same);
  so relocating twice gives what relocating once gives.
\<close>

theorem relocate_keeps_fitting_resource:
  assumes "(dialect_name (bind tbl) = ''redshift'' \<and> isinstance_S3 res)
         \<or> (dialect_name (bind tbl) \<noteq> ''redshift'' \<and> dialect_name (bind tbl) \<noteq> ''hive''
              \<and> \<not> isinstance_S3 res)"
  shows "relocate env tbl res kw w = (Inr (Proceed res), w)
       \<and> (case relocate env tbl res kw w of
             (Inr (Proceed res1), w1) \<Rightarrow> relocate env tbl res1 kw w1
           | other \<Rightarrow> other) = (Inr (Proceed res), w)"
proof -
  have once: "relocate env tbl res kw w = (Inr (Proceed res), w)" for w
    using assms by (auto simp: relocate_def)
  then show ?thesis by simp
qed

theorem relocate_keeps_fitting_resource_witness:
  "dialect_name (bind (table_on ''redshift'')) = ''redshift'' \<and> isinstance_S3 s3_csv
   \<and> relocate env_quiet (table_on ''redshift'') s3_csv no_kwargs w0 = (Inr (Proceed s3_csv), w0)
   \<and> dialect_name (bind (table_on ''mysql'')) \<noteq> ''redshift''
   \<and> dialect_name (bind (table_on ''mysql'')) \<noteq> ''hive'' \<and> \<not> isinstance_S3 local_csv
   \<and> relocate env_quiet (table_on ''mysql'') local_csv no_kwargs w0 = (Inr (Proceed local_csv), w0)"
  using relocate_keeps_fitting_resource [of "table_on ''redshift''" s3_csv env_quiet no_kwargs w0]
    relocate_keeps_fitting_resource [of "table_on ''mysql''" local_csv env_quiet no_kwargs w0]
  by (simp add: table_on_def isinstance_S3_def s3_csv_def local_csv_def)

text \<open>
  Claim C8 as stated covers Hive, which needs the resource on the remote host. For Hive
  the branch of line 157 does not look at the class of the resource: one that is an
  \<^verbatim>\<open>SSH(CSV)\<close> already is converted to \<^verbatim>\<open>Temp(SSH(CSV))\<close> again.
\<close>

theorem hive_converts_remote_resource_again:
  "dialect_name (bind (table_on ''hive'')) = ''hive''
   \<and> base_type (cls ssh_csv) = SSH_CSV
   \<and> relocate env_quiet (table_on ''hive'') ssh_csv no_kwargs w0 =
       (Inr (Recurse ssh_tmp_csv), w0\<lparr>calls := [Convert (Temp SSH_CSV) ssh_csv no_kwargs]\<rparr>)"
  by (simp add: relocate_def table_on_def ssh_csv_def isinstance_S3_def env_quiet_def
      ssh_tmp_csv_def w0_def)




subsection \<open>What the compilers do besides returning a statement\<close>

lemma compile_sql_dialects:
  "dialect_name (bind (element el)) = ''mysql'' \<Longrightarrow>
     compile env el w = (compile_from_csv_mysql el, w)"
  "dialect_name (bind (element el)) = ''postgresql'' \<Longrightarrow>
     compile env el w = (Inr (compile_from_csv_postgres el), w)"
  by (simp_all add: compile_def)

lemma redshift_world:
  "committed (snd (compile_from_csv_redshift env el w)) = committed w
   \<and> (\<exists>extra. calls (snd (compile_from_csv_redshift env el w)) = calls w @ extra
               \<and> set extra \<subseteq> {BotoConfig, Inspect})"
  by (auto simp: compile_from_csv_redshift_def Let_def split: option.splits)

lemma compile_world:
  assumes "dialect_name (bind (element el)) \<noteq> ''sqlite''"
  shows "committed (snd (compile env el w)) = committed w
       \<and> (\<exists>extra. calls (snd (compile env el w)) = calls w @ extra
                   \<and> set extra \<subseteq> {BotoConfig, Inspect})"
proof (cases "dialect_name (bind (element el)) = ''redshift''")
  case True
  then have "compile env el w = compile_from_csv_redshift env el w"
    by (simp add: compile_def)
  then show ?thesis using redshift_world [of env el w] by simp
next
  case False
  with assms have "snd (compile env el w) = w"
    by (simp add: compile_def Let_def)
  then show ?thesis by simp
qed

text \<open>
  Claim C9, amended. For the MySQL and PostgreSQL dialects the compiler is a pure
  function of the statement: it calls nothing, leaves the world as it is, and returns
  the same result in every environment and world. For every dialect but SQLite the
  compiler does not run the load: the rows of the table are unchanged, and the only
  calls it makes are the Redshift compiler's reading of the credentials and of the
  default schema.
\<close>

theorem compile_without_effects:
  "(dialect_name (bind (element el)) = ''mysql''
      \<or> dialect_name (bind (element el)) = ''postgresql''
    \<longrightarrow> snd (compile env el w) = w \<and> fst (compile env el w) = fst (compile env' el w'))
   \<and> (dialect_name (bind (element el)) \<noteq> ''sqlite''
    \<longrightarrow> committed (snd (compile env el w)) = committed w
        \<and> (\<exists>extra. calls (snd (compile env el w)) = calls w @ extra
                    \<and> set extra \<subseteq> {BotoConfig, Inspect}))"
  using compile_sql_dialects [of el] compile_world [of el env w] by auto

theorem compile_without_effects_witness:
  "dialect_name (bind (element (stmt_on ''postgresql'' local_csv))) = ''postgresql''
   \<and> snd (compile env_quiet (stmt_on ''postgresql'' local_csv) w0) = w0
   \<and> fst (compile env_quiet (stmt_on ''postgresql'' local_csv) w0)
       = fst (compile env_noisy (stmt_on ''postgresql'' local_csv) (w0\<lparr>committed := [''9,9'']\<rparr>))
   \<and> dialect_name (bind (element (stmt_on ''redshift'' s3_csv))) \<noteq> ''sqlite''
   \<and> committed (snd (compile env_quiet (stmt_on ''redshift'' s3_csv) w0)) = committed w0
   \<and> calls (snd (compile env_quiet (stmt_on ''redshift'' s3_csv) w0)) = [BotoConfig, Inspect]"
proof -
  have "calls (snd (compile env_quiet (stmt_on ''redshift'' s3_csv) w0)) = [BotoConfig, Inspect]"
    by (simp add: compile_def compile_from_csv_redshift_def stmt_on_def table_on_def s3_csv_def
        isinstance_S3_def truthy_def w0_def)
  then show ?thesis
    using compile_without_effects [of "stmt_on ''postgresql'' local_csv" env_quiet w0 env_noisy
        "w0\<lparr>committed := [''9,9'']\<rparr>"]
      compile_without_effects [of "stmt_on ''redshift'' s3_csv" env_quiet w0]
    by (simp add: stmt_on_def table_on_def)
qed

text \<open>
  Claim C9 as stated covers the SQLite compiler, which looks the \<^verbatim>\<open>sqlite3\<close> program up,
  runs the import in a sub-process and returns the empty statement: the load is done
  by the compiler itself.
\<close>

theorem sqlite_compiler_runs_the_import:
  "dialect_name (bind (element (stmt_on ''sqlite'' local_csv))) = ''sqlite''
   \<and> compile env_quiet (stmt_on ''sqlite'' local_csv) \<lparr>committed = [], calls = []\<rparr> =
       (Inr [],
        \<lparr>committed = [''1,10''],
         calls = [FindExecutable ''sqlite3'',
                  Popen [''sqlite3'', ''-nullvalue'', quoted [], ''-header'', ''-separator'', '','',
                         ''-cmd'', ''.import /data/in.csv accounts'', ''/data/db.sqlite'']]\<rparr>)"
  by (simp add: compile_def compile_from_csv_sqlite_def stmt_on_def table_on_def local_csv_def
      env_quiet_def repr_def quoted_def Let_def)

subsection \<open>The transaction around the statement\<close>

lemma relocate_committed:
  "committed (snd (relocate env tbl res kw w)) = committed w"
  by (simp add: relocate_def Let_def split: sum.splits option.splits)

text \<open>
  Claim C7, amended. For every engine but SQLite, when \<^verbatim>\<open>append_csv_to_sql_table\<close> has
  built its statement, it opens one transaction and executes the statement once. If the
  compiler raises, or the engine reports an error, the function raises that same error,
  the transaction is rolled back (the rows the statement had written are dropped) and the
  rows of the table are those before the call; nothing is tried again. Otherwise the
  transaction is committed, the rows the statement wrote are added to the table, and the
  function returns a table of the same name, schema and engine with its columns read
  from the engine again.
\<close>

theorem append_runs_in_one_transaction:
  assumes d: "dialect_name (bind tbl) \<noteq> ''sqlite''"
      and reloc: "relocate env tbl res kw w = (Inr (Proceed res'), w1)"
      and built: "build_stmt env tbl res' kw = Inr stmt"
      and comp: "compile env stmt (w1\<lparr>calls := calls w1 @ [Begin]\<rparr>) = (compiled, w2)"
  shows "(\<forall>e. compiled = Inl e \<longrightarrow>
            append_csv_to_sql_table env tbl res kw w =
              (Inl e, w2\<lparr>calls := calls w2 @ [Rollback]\<rparr>))
       \<and> (\<forall>sql e. compiled = Inr sql \<and> snd (run_sql env sql (committed w)) = Some e \<longrightarrow>
            append_csv_to_sql_table env tbl res kw w =
              (Inl e, w2\<lparr>calls := calls w2 @ [Execute sql, Rollback]\<rparr>))
       \<and> (\<forall>sql. compiled = Inr sql \<and> snd (run_sql env sql (committed w)) = None \<longrightarrow>
            append_csv_to_sql_table env tbl res kw w =
              (Inr \<lparr> name = name tbl, schema = schema tbl, bind = bind tbl,
                      columns = reflect_columns env (bind tbl) (name tbl) (schema tbl) \<rparr>,
               w2\<lparr>committed := committed w @ fst (run_sql env sql (committed w)),
                   calls := calls w2 @ [Execute sql, Commit, Reflect (name tbl) (schema tbl)]\<rparr>))
       \<and> committed w2 = committed w
       \<and> (\<exists>extra. calls w2 = calls w1 @ Begin # extra \<and> set extra \<subseteq> {BotoConfig, Inspect})"
proof -
  have el: "element stmt = tbl"
    using built by (auto simp: build_stmt_def CopyFromCSV_def)
  have c1: "committed w1 = committed w"
    using relocate_committed [of env tbl res kw w] reloc by simp
  have world: "committed w2 = committed w
       \<and> (\<exists>extra. calls w2 = calls w1 @ Begin # extra \<and> set extra \<subseteq> {BotoConfig, Inspect})"
    using compile_world [of stmt env "w1\<lparr>calls := calls w1 @ [Begin]\<rparr>"] d el comp c1
    by auto
  have app: "append_csv_to_sql_table env tbl res kw w = run_stmt env tbl stmt w1"
    using reloc built by (simp add: append_csv_to_sql_table_def)
  have run: "run_stmt env tbl stmt w1 =
      (case compiled of
         Inl e \<Rightarrow> (Inl e, w2\<lparr>calls := calls w2 @ [Rollback]\<rparr>)
       | Inr sql \<Rightarrow>
           (case snd (run_sql env sql (committed w)) of
              Some e \<Rightarrow> (Inl e, w2\<lparr>calls := calls w2 @ [Execute sql, Rollback]\<rparr>)
            | None \<Rightarrow>
               (Inr \<lparr> name = name tbl, schema = schema tbl, bind = bind tbl,
                      columns = reflect_columns env (bind tbl) (name tbl) (schema tbl) \<rparr>,
               w2\<lparr>committed := committed w @ fst (run_sql env sql (committed w)),
                   calls := calls w2 @ [Execute sql, Commit, Reflect (name tbl) (schema tbl)]\<rparr>)))"
    using comp world
    by (simp add: run_stmt_def txn_begin_def execute_def txn_rollback_def txn_commit_def Let_def
        split: sum.splits option.splits)
  show ?thesis
    using app run world by (simp split: sum.splits option.splits)
qed

lemma accounts_load_compiled:
  "compile env (stmt_on ''mysql'' local_csv) w = (Inr accounts_load_sql, w)"
  by (simp add: compile_sql_dialects mysql_text accounts_load_sql_def stmt_on_def local_csv_def
      table_on_def arg_def quoted_def mysql_encoding_def lower_examples str_int_0)

lemma accounts_relocated:
  "relocate env (table_on ''mysql'') local_csv no_kwargs w = (Inr (Proceed local_csv), w)"
  by (simp add: relocate_def table_on_def local_csv_def isinstance_S3_def)

lemma accounts_built:
  "build_stmt env (table_on ''mysql'') local_csv no_kwargs = Inr (stmt_on ''mysql'' local_csv)"
  by (simp add: build_stmt_def CopyFromCSV_def stmt_on_def local_csv_def no_kwargs_def merge_def
      override_def arg_def arg_or_None_def)

theorem append_runs_in_one_transaction_witness:
  "append_csv_to_sql_table env_failing (table_on ''mysql'') local_csv no_kwargs w0 =
     (Inl (EngineError ''invalid input''),
      \<lparr>committed = [], calls = [Begin, Execute accounts_load_sql, Rollback]\<rparr>)
   \<and> run_sql env_failing accounts_load_sql (committed w0)
       = ([''1,10''], Some (EngineError ''invalid input''))
   \<and> append_csv_to_sql_table env_quiet (table_on ''mysql'') local_csv no_kwargs w0 =
       (Inr (table_on ''mysql''),
        \<lparr>committed = [''1,10''],
         calls = [Begin, Execute accounts_load_sql, Commit, Reflect ''accounts'' None]\<rparr>)"
proof -
  have d: "dialect_name (bind (table_on ''mysql'')) \<noteq> ''sqlite''"
    by (simp add: table_on_def)
  show ?thesis
    using append_runs_in_one_transaction
        [OF d accounts_relocated accounts_built accounts_load_compiled, of env_failing w0]
      append_runs_in_one_transaction
        [OF d accounts_relocated accounts_built accounts_load_compiled, of env_quiet w0]
    by (simp add: env_failing_def env_quiet_def w0_def table_on_def)
qed

text \<open>
  Claim C7 as stated covers SQLite. There the rows are written by the \<^verbatim>\<open>sqlite3\<close>
  process that the compiler starts, not by the transaction: when the process prints a
  warning, line 62 raises \<^verbatim>\<open>AssertionError\<close>, the transaction is rolled back, and the
  rows the process imported are in the table all the same.
\<close>

theorem sqlite_import_survives_rollback:
  "append_csv_to_sql_table env_noisy (table_on ''sqlite'') local_csv no_kwargs
       \<lparr>committed = [], calls = []\<rparr> =
     (Inl AssertionError,
      \<lparr>committed = [''1,10''],
       calls = [Begin, FindExecutable ''sqlite3'',
                Popen [''sqlite3'', ''-nullvalue'', quoted [], ''-header'', ''-separator'', '','',
                       ''-cmd'', ''.import /data/in.csv accounts'', ''/data/db.sqlite''],
                Rollback]\<rparr>)"
  by (simp add: append_csv_to_sql_table_def relocate_def build_stmt_def CopyFromCSV_def
      run_stmt_def txn_begin_def txn_rollback_def execute_def compile_def
      compile_from_csv_sqlite_def table_on_def local_csv_def isinstance_S3_def no_kwargs_def
      merge_def override_def arg_def arg_or_None_def env_noisy_def env_quiet_def repr_def
      quoted_def Let_def)

end
